theory Spec2Isabelle
  imports Complex_Main
begin

section \<open>The upload script \<^verbatim>\<open>wandb/upload_to_wandb.py\<close>\<close>

text \<open>
  The script talks to three things: the terminal (\<^verbatim>\<open>print\<close>), the file system
  (\<^verbatim>\<open>os.path.exists\<close>, read only) and the Weights and Biases client library. The
  library is not part of the repository, so each call into it is recorded, in order and with
  its arguments, as an observable event; a call is taken to return normally. The terminal is
  the list of lines the script itself has printed.
\<close>

datatype media = Image string

record artifact =
  art_name :: string
  art_type :: string
  art_files :: "string list"

datatype wandb_call =
    Login string
  | Init string string
  | Log "(string \<times> media) list"
  | Log_artifact artifact

record world =
  printed :: "string list"
  wandb_calls :: "wandb_call list"

definition print :: "string \<Rightarrow> world \<Rightarrow> world" where
  "print s w = w\<lparr>printed := printed w @ [s]\<rparr>"

definition wandb :: "wandb_call \<Rightarrow> world \<Rightarrow> world" where
  "wandb c w = w\<lparr>wandb_calls := wandb_calls w @ [c]\<rparr>"

text \<open>
  \<^verbatim>\<open>wandb.Artifact(name, type=t)\<close> makes an artifact without files;
  \<^verbatim>\<open>artifact.add_file(p)\<close> adds one.
\<close>

definition Artifact :: "string \<Rightarrow> string \<Rightarrow> artifact" where
  "Artifact n t = \<lparr>art_name = n, art_type = t, art_files = []\<rparr>"

definition add_file :: "string \<Rightarrow> artifact \<Rightarrow> artifact" where
  "add_file p a = a\<lparr>art_files := art_files a @ [p]\<rparr>"

text \<open>
  \<^verbatim>\<open>os.path.join(a, b)\<close> on a POSIX system: an absolute second component replaces
  the first; otherwise the components are joined by one slash, which is left out when the
  first component is empty or already ends with a slash.
\<close>

definition startswith_sep :: "string \<Rightarrow> bool" where
  "startswith_sep b = (case b of [] \<Rightarrow> False | c # _ \<Rightarrow> c = CHR ''/'')"

definition endswith_sep :: "string \<Rightarrow> bool" where
  "endswith_sep a = (case rev a of [] \<Rightarrow> False | c # _ \<Rightarrow> c = CHR ''/'')"

definition path_join :: "string \<Rightarrow> string \<Rightarrow> string" where
  "path_join a b =
     (if startswith_sep b then b
      else if a = [] \<or> endswith_sep a then a @ b
      else a @ ''/'' @ b)"

text \<open>
  The file system is the set of paths for which \<^verbatim>\<open>os.path.exists\<close> answers true.
\<close>

type_synonym filesystem = "string set"

definition upload_model_to_wandb :: "filesystem \<Rightarrow> string \<Rightarrow> world \<Rightarrow> world" where
  "upload_model_to_wandb fs model_dir w0 =
     (let w1 = wandb (Init ''twintowers_finetuning'' ''twintowers-search'') w0;
          word2vec_file = path_join model_dir ''word2vec_text8_tiny_improved.txt'';
          predictor_file = path_join model_dir ''best_hn_predictor.pth'';
          loss_chart = path_join model_dir ''loss_history.png'';
          upvote_chart = path_join model_dir ''upvote_predictor_training.png'';
          w2 = (if loss_chart \<in> fs
                then wandb (Log [(''loss_chart'', Image loss_chart)]) w1 else w1);
          w3 = (if upvote_chart \<in> fs
                then wandb (Log [(''upvote_training'', Image upvote_chart)]) w2 else w2);
          w4 = (if word2vec_file \<in> fs
                then print (''Uploaded Word2Vec model: '' @ word2vec_file)
                       (wandb (Log_artifact
                          (add_file word2vec_file (Artifact ''word2vec-model'' ''model''))) w3)
                else w3);
          w5 = (if predictor_file \<in> fs
                then print (''Uploaded HN predictor model: '' @ predictor_file)
                       (wandb (Log_artifact
                          (add_file predictor_file (Artifact ''hn-predictor'' ''model''))) w4)
                else w4)
      in print ''Upload to W&B complete!'' w5)"

text \<open>
  The \<^verbatim>\<open>__main__\<close> block. \<^verbatim>\<open>sys.exit(1)\<close> ends the process with exit code 1;
  falling off the end of the script ends it with exit code 0.
\<close>

definition usage :: string where
  "usage = ''Usage: python upload_to_wandb.py YOUR_API_KEY MODEL_DIRECTORY''"

definition main :: "filesystem \<Rightarrow> string list \<Rightarrow> world \<Rightarrow> int \<times> world" where
  "main fs argv w =
     (if length argv < 3 then (1, print usage w)
      else
        (let api_key = argv ! 1;
             model_dir = argv ! 2;
             w1 = wandb (Login api_key) w
         in (0, upload_model_to_wandb fs model_dir w1)))"

text \<open>The positional arguments are what follows the script name in \<^verbatim>\<open>sys.argv\<close>.\<close>

definition positional :: "string list \<Rightarrow> string list" where
  "positional argv = tl argv"




section \<open>The sequence encoder \<^verbatim>\<open>NN.py\<close>\<close>

text \<open>
  The constructor builds one \<^verbatim>\<open>nn.GRU\<close>; what the model keeps of it is the
  argument list the constructor passes on. \<^verbatim>\<open>num_layers\<close> and \<^verbatim>\<open>dropout\<close>
  have defaults (1 and 0.0), so they are optional arguments here. The dropout rate is only
  compared and passed on, never computed with, so it is a real number.
\<close>

record gru_args =
  gru_input_size :: int
  gru_hidden_size :: int
  gru_num_layers :: int
  gru_batch_first :: bool
  gru_bidirectional :: bool
  gru_dropout :: real

definition BidirectionalGRU_init :: "int \<Rightarrow> int \<Rightarrow> int option \<Rightarrow> real option \<Rightarrow> gru_args" where
  "BidirectionalGRU_init embedding_dim hidden_dim num_layers_arg dropout_arg =
     (let num_layers = (case num_layers_arg of None \<Rightarrow> 1 | Some n \<Rightarrow> n);
          dropout = (case dropout_arg of None \<Rightarrow> 0 | Some d \<Rightarrow> d)
      in \<lparr>gru_input_size = embedding_dim,
          gru_hidden_size = hidden_dim,
          gru_num_layers = num_layers,
          gru_batch_first = True,
          gru_bidirectional = True,
          gru_dropout = (if num_layers > 1 then dropout else 0)\<rparr>)"

text \<open>
  A tensor is its shape together with its entries, read by index. Only the operations
  \<^verbatim>\<open>forward\<close> itself applies are modelled, each with the shape check PyTorch makes:
  \<^verbatim>\<open>transpose(0, 1)\<close>, the selection \<^verbatim>\<open>t[:, i, :]\<close> with Python's negative
  indices, and \<^verbatim>\<open>torch.cat([x, y], dim=1)\<close>. Entries are of any type: they are moved,
  never computed with.
\<close>

datatype torch_error = IndexError | RuntimeError | ValueError

record 'a tensor3 =
  dims3 :: "nat \<times> nat \<times> nat"
  at3 :: "nat \<Rightarrow> nat \<Rightarrow> nat \<Rightarrow> 'a"

record 'a tensor2 =
  dims2 :: "nat \<times> nat"
  at2 :: "nat \<Rightarrow> nat \<Rightarrow> 'a"

definition transpose01 :: "'a tensor3 \<Rightarrow> 'a tensor3" where
  "transpose01 t =
     (case dims3 t of (d0, d1, d2) \<Rightarrow>
        \<lparr>dims3 = (d1, d0, d2), at3 = (\<lambda>j i k. at3 t i j k)\<rparr>)"

definition select_dim1 :: "int \<Rightarrow> 'a tensor3 \<Rightarrow> torch_error + 'a tensor2" where
  "select_dim1 i t =
     (case dims3 t of (d0, d1, d2) \<Rightarrow>
        (let j = (if i < 0 then i + int d1 else i)
         in if 0 \<le> j \<and> j < int d1
            then Inr \<lparr>dims2 = (d0, d2), at2 = (\<lambda>r k. at3 t r (nat j) k)\<rparr>
            else Inl IndexError))"

definition cat_dim1 :: "'a tensor2 \<Rightarrow> 'a tensor2 \<Rightarrow> torch_error + 'a tensor2" where
  "cat_dim1 x y =
     (case dims2 x of (r, c) \<Rightarrow> case dims2 y of (r', c') \<Rightarrow>
        if r = r'
        then Inr \<lparr>dims2 = (r, c + c'),
                  at2 = (\<lambda>b k. if k < c then at2 x b k else at2 y b (k - c))\<rparr>
        else Inl RuntimeError)"

text \<open>
  \<^verbatim>\<open>pack_padded_sequence\<close> and the GRU itself belong to PyTorch; they are parameters of
  the model, and may fail. \<^verbatim>\<open>lengths.cpu()\<close> moves the lengths between devices and
  leaves their values alone.
\<close>

definition forward ::
  "('e tensor3 \<Rightarrow> int list \<Rightarrow> bool \<Rightarrow> bool \<Rightarrow> torch_error + 'p) \<Rightarrow>
   ('p \<Rightarrow> torch_error + 'o \<times> 'a tensor3) \<Rightarrow>
   'e tensor3 \<Rightarrow> int list \<Rightarrow> torch_error + 'a tensor2" where
  "forward pack_padded_sequence gru embeddings lengths =
     (case pack_padded_sequence embeddings lengths True False of
        Inl e \<Rightarrow> Inl e
      | Inr packed \<Rightarrow>
          (case gru packed of
             Inl e \<Rightarrow> Inl e
           | Inr (out, h_n) \<Rightarrow>
               (let hidden = transpose01 h_n
                in case select_dim1 (- 2) hidden of
                     Inl e \<Rightarrow> Inl e
                   | Inr last_forward \<Rightarrow>
                       (case select_dim1 (- 1) hidden of
                          Inl e \<Rightarrow> Inl e
                        | Inr last_backward \<Rightarrow> cat_dim1 last_forward last_backward))))"

text \<open>
  PyTorch documents the final hidden state \<^verbatim>\<open>h_n\<close> of a bidirectional GRU as a tensor
  of shape \<^verbatim>\<open>[2 * num_layers, batch, hidden_size]\<close> in which the forward and the backward
  state of layer \<open>l\<close> (counted from 0) are the entries \<open>2 * l\<close> and \<open>2 * l + 1\<close> of the
  first dimension.
\<close>

datatype direction = Forward | Backward

definition layer_state :: "'a tensor3 \<Rightarrow> nat \<Rightarrow> direction \<Rightarrow> nat \<Rightarrow> nat \<Rightarrow> 'a" where
  "layer_state h_n l d b k = at3 h_n (2 * l + (case d of Forward \<Rightarrow> 0 | Backward \<Rightarrow> 1)) b k"

text \<open>
  Both library calls of \<^verbatim>\<open>forward\<close> return normally, the GRU with final hidden state
  \<open>h_n\<close>. This is what PyTorch does on a batch whose lengths lie between 1 and the padded
  length and whose embedding dimension is the GRU's input size.
\<close>

definition returns_h_n ::
  "('e tensor3 \<Rightarrow> int list \<Rightarrow> bool \<Rightarrow> bool \<Rightarrow> torch_error + 'p) \<Rightarrow>
   ('p \<Rightarrow> torch_error + 'o \<times> 'a tensor3) \<Rightarrow>
   'e tensor3 \<Rightarrow> int list \<Rightarrow> 'a tensor3 \<Rightarrow> bool" where
  "returns_h_n pack_padded_sequence gru embeddings lengths h_n =
     (\<exists>packed out. pack_padded_sequence embeddings lengths True False = Inr packed
        \<and> gru packed = Inr (out, h_n))"

section \<open>The batch pipeline\<close>

text \<open>
  The scripts of the batch pipeline (Request Builder, Cost Estimator, Batch Writer,
  Submitter, Poller, Result Processor) are not among the source files at hand. The
  definitions of this section follow the specification's description of them, sections 3
  to 7. What the specification leaves to configuration or to an external collaborator (the
  text extractor, the JSON parser, the prompt fingerprint, the format of a chunk suffix, the
  clock) is a parameter.
\<close>

datatype job_status = Queued | In_progress | Completed | Failed | Expired | Cancelled

datatype exit_status = Exit_zero | Exit_nonzero

subsection \<open>Poller\<close>

text \<open>
  Modelled from the spec: the data of the Batch Poller (section 4.5), whose source is
  missing. A view of the job is one answer of the remote system to a status query: the
  status and the two counters of the progress line. The events are what a run of the
  poller does, in order.
\<close>

record job_view =
  view_status :: job_status
  completed_count :: nat
  total_count :: nat

datatype poller_event =
    Query_status
  | Progress_line nat nat
  | Sleep_interval
  | Invoke_processor
  | Report_terminal job_status

datatype poller_outcome = Processed exit_status | Stopped job_status

text \<open>
  Modelled from the spec: the loop of the Batch Poller (section 4.5), whose source is
  missing. It asks the remote system for the job's status and prints a progress line. On
  \<open>completed\<close> it invokes the Result Processor and passes on its exit status; on \<open>failed\<close>,
  \<open>expired\<close> or \<open>cancelled\<close> it reports and stops; otherwise it sleeps for the interval and
  asks again. The remote system is the list of its successive answers. The loop has no
  timeout, so when the answers run out before a terminal one the run has not ended: the
  result is \<open>None\<close>. The first argument is the exit status the Result Processor ends with
  when invoked.
\<close>

fun poller :: "exit_status \<Rightarrow> job_view list \<Rightarrow> (poller_event list \<times> poller_outcome) option" where
  "poller processor [] = None"
| "poller processor (v # vs) =
     (let seen = [Query_status, Progress_line (completed_count v) (total_count v)];
          again = map_option (\<lambda>(evs, r). (seen @ [Sleep_interval] @ evs, r))
                    (poller processor vs)
      in case view_status v of
           Completed \<Rightarrow> Some (seen @ [Invoke_processor], Processed processor)
         | Failed \<Rightarrow> Some (seen @ [Report_terminal Failed], Stopped Failed)
         | Expired \<Rightarrow> Some (seen @ [Report_terminal Expired], Stopped Expired)
         | Cancelled \<Rightarrow> Some (seen @ [Report_terminal Cancelled], Stopped Cancelled)
         | Queued \<Rightarrow> again
         | In_progress \<Rightarrow> again)"

text \<open>
  Modelled from the spec: the two kinds of state of section 4.5 other than \<open>completed\<close>,
  the terminal failure states and the states in which the loop continues.
\<close>

definition terminal_failure :: "job_status \<Rightarrow> bool" where
  "terminal_failure s = (s = Failed \<or> s = Expired \<or> s = Cancelled)"

definition pending :: "job_status \<Rightarrow> bool" where
  "pending s = (s = Queued \<or> s = In_progress)"

subsection \<open>Result Processor\<close>

text \<open>
  Modelled from the spec: the data of the Result Processor (sections 3 and 4.6), whose
  source is missing. The processor is given the job it has located and fetched: the job's
  status and, for a completed job, the records of its output file. Its world is the output
  files it has written, oldest first, as pairs of name and content, and the lines it has
  reported.
\<close>

record result_record =
  result_id :: string
  result_content :: string

record batch_job =
  job_status_of :: job_status
  job_output :: "result_record list"

record processor_config =
  request_prefix :: string
  min_length :: nat
  short_length :: nat
  expects_structured :: bool

datatype quality_flag = Empty_output | Short_output | Invalid_json

datatype processor_line =
    Job_not_completed job_status
  | Quality_report nat nat nat

record processor_world =
  output_files :: "(string \<times> string) list"
  processor_lines :: "processor_line list"

text \<open>
  Modelled from the spec: the output file name of section 4.6, the correlation identifier
  without the known request prefix. The source of the Result Processor is missing.
\<close>

definition strip_prefix :: "string \<Rightarrow> string \<Rightarrow> string" where
  "strip_prefix p s = (if take (length p) s = p then drop (length p) s else s)"

text \<open>
  Modelled from the spec: the quality checks of section 4.6, whose source is missing.
  Content below the minimum length is flagged as empty, content below the second, larger
  threshold as short, and content that does not parse as JSON is flagged only when the
  prompt template was found to expect structured output.
\<close>

definition quality_flags :: "processor_config \<Rightarrow> (string \<Rightarrow> bool) \<Rightarrow> string \<Rightarrow> quality_flag list" where
  "quality_flags cfg parses_as_json c =
     (if length c < min_length cfg then [Empty_output]
      else if length c < short_length cfg then [Short_output]
      else [])
     @ (if expects_structured cfg \<and> \<not> parses_as_json c then [Invalid_json] else [])"

text \<open>
  Modelled from the spec: the write of one record of section 4.6, whose source is missing.
  Each record's content goes to a new file named by its identifier plus the processing
  timestamp; no file is overwritten.
\<close>

definition write_record :: "processor_config \<Rightarrow> string \<Rightarrow> processor_world \<Rightarrow> result_record \<Rightarrow> processor_world" where
  "write_record cfg stamp w r =
     w\<lparr>output_files := output_files w
          @ [(strip_prefix (request_prefix cfg) (result_id r) @ stamp, result_content r)]\<rparr>"

text \<open>
  Modelled from the spec: the Result Processor (section 4.6), whose source is missing. A
  job that is not \<open>completed\<close> ends the run at once with a non-zero exit status. Otherwise
  each record is written to a file of its own and the run ends with the quality report, the
  counts of empty, short and invalid-JSON outputs.
\<close>

definition result_processor ::
  "processor_config \<Rightarrow> (string \<Rightarrow> bool) \<Rightarrow> string \<Rightarrow> batch_job \<Rightarrow> processor_world
     \<Rightarrow> exit_status \<times> processor_world" where
  "result_processor cfg parses_as_json stamp job w =
     (if job_status_of job \<noteq> Completed
      then (Exit_nonzero,
            w\<lparr>processor_lines := processor_lines w @ [Job_not_completed (job_status_of job)]\<rparr>)
      else
        (let w1 = foldl (write_record cfg stamp) w (job_output job);
             flags = concat (map (\<lambda>r. quality_flags cfg parses_as_json (result_content r))
                       (job_output job))
         in (Exit_zero,
             w1\<lparr>processor_lines := processor_lines w1
                  @ [Quality_report (count_list flags Empty_output)
                       (count_list flags Short_output) (count_list flags Invalid_json)]\<rparr>)))"

subsection \<open>Request Builder\<close>

text \<open>
  Modelled from the spec: the data of the Request Builder (sections 3 and 4.1), whose
  source is missing. A source item carries its path, its type by extension and its safe
  identifier. The extractor answers with an error, as kind and message, or with a text and
  its page count, one encoded image, or the encoded pages of a scan. The collaborators are
  what the specification leaves outside the builder: the extractor, the prompt fingerprint
  recorded with a prior output of an identifier, the fingerprint function and the format of
  a chunk suffix.
\<close>

record source_item =
  item_path :: string
  item_extension :: string
  safe_id :: string

datatype extracted =
    Text_content string nat
  | Image_content string
  | Scan_pages "string list"

datatype payload = Text_message string | Vision_message string "string list"

record batch_request =
  custom_id :: string
  endpoint :: string
  model_name :: string
  message :: payload
  max_tokens :: nat

record builder_config =
  prompt :: string
  id_prefix :: string
  target_endpoint :: string
  target_model :: string
  max_output_tokens :: nat
  min_chars :: nat
  chunk_size :: nat
  skip_existing :: bool
  dry_run :: bool
  force :: bool
  chars_per_token :: nat
  input_ceiling :: nat
  output_ceiling :: nat

record collaborators =
  extractor :: "source_item \<Rightarrow> (string \<times> string) + extracted"
  prior_fingerprint :: "string \<Rightarrow> string option"
  fingerprint :: "string \<Rightarrow> string"
  chunk_suffix :: "nat \<Rightarrow> string"

text \<open>
  Modelled from the spec: the partition of a scan's pages into chunks of a fixed size
  (section 4.1), whose source is missing. A chunk holds at least one page.
\<close>

function split_pages :: "nat \<Rightarrow> 'a list \<Rightarrow> 'a list list" where
  "split_pages n [] = []"
| "split_pages n (x # xs) = take (max 1 n) (x # xs) # split_pages n (drop (max 1 n) (x # xs))"
  by pat_completeness auto
termination
  by (relation "measure (\<lambda>(n, xs). length xs)") auto

text \<open>
  Modelled from the spec: one BatchRequestRecord (section 3), with the endpoint, the model
  and the output-token bound of the configuration. The source of the builder is missing.
\<close>

definition request :: "builder_config \<Rightarrow> string \<Rightarrow> payload \<Rightarrow> batch_request" where
  "request cfg cid m =
     \<lparr>custom_id = cid, endpoint = target_endpoint cfg, model_name = target_model cfg,
      message = m, max_tokens = max_output_tokens cfg\<rparr>"

text \<open>
  Modelled from the spec: the skip-existing test of section 4.1, whose source is missing.
  An item is passed over when the mode is on, a prior output exists for its identifier and
  the fingerprint recorded with it is that of the current prompt.
\<close>

definition skipped :: "builder_config \<Rightarrow> collaborators \<Rightarrow> source_item \<Rightarrow> bool" where
  "skipped cfg env item =
     (skip_existing cfg
      \<and> prior_fingerprint env (safe_id item) = Some (fingerprint env (prompt cfg)))"

text \<open>
  Modelled from the spec: what the Request Builder does with one item (section 4.1); its
  source is missing. An item passed over gives nothing. An extraction error is recorded as
  a failure, with its kind and message; a text shorter than the minimum is recorded as the
  failure ``insufficient text''; a text gives one text request; an image gives one vision
  request; a scan is cut into chunks, one vision request per chunk, with the chunk's index
  as a suffix of the correlation identifier.
\<close>

definition build_item ::
  "builder_config \<Rightarrow> collaborators \<Rightarrow> source_item
     \<Rightarrow> batch_request list \<times> (source_item \<times> string) list" where
  "build_item cfg env item =
     (if skipped cfg env item then ([], [])
      else
        (case extractor env item of
           Inl (kind, msg) \<Rightarrow> ([], [(item, kind @ '': '' @ msg)])
         | Inr (Text_content t pages) \<Rightarrow>
             if length t < min_chars cfg then ([], [(item, ''insufficient text'')])
             else ([request cfg (id_prefix cfg @ safe_id item) (Text_message (prompt cfg @ t))],
                   [])
         | Inr (Image_content img) \<Rightarrow>
             ([request cfg (id_prefix cfg @ safe_id item) (Vision_message (prompt cfg) [img])],
              [])
         | Inr (Scan_pages pages) \<Rightarrow>
             (map (\<lambda>(i, chunk).
                     request cfg (id_prefix cfg @ safe_id item @ chunk_suffix env i)
                       (Vision_message (prompt cfg) chunk))
                (enumerate 0 (split_pages (chunk_size cfg) pages)),
              [])))"

text \<open>
  Modelled from the spec: the Request Builder over a list of items (section 4.1), whose
  source is missing. The items are taken in order; the result is the sequence of requests
  and the list of failures.
\<close>

fun build_requests ::
  "builder_config \<Rightarrow> collaborators \<Rightarrow> source_item list
     \<Rightarrow> batch_request list \<times> (source_item \<times> string) list" where
  "build_requests cfg env [] = ([], [])"
| "build_requests cfg env (item # items) =
     (case build_item cfg env item of (rs, fs) \<Rightarrow>
        case build_requests cfg env items of (rs', fs') \<Rightarrow> (rs @ rs', fs @ fs'))"

text \<open>
  The count of section 8, in the specification's words: the items considered are those not
  passed over; an item counts once, a scan once per chunk it is cut into.
\<close>

definition considered :: "builder_config \<Rightarrow> collaborators \<Rightarrow> source_item list \<Rightarrow> source_item list" where
  "considered cfg env items = filter (\<lambda>item. \<not> skipped cfg env item) items"

definition units :: "builder_config \<Rightarrow> collaborators \<Rightarrow> source_item \<Rightarrow> nat" where
  "units cfg env item =
     (case extractor env item of
        Inr (Scan_pages pages) \<Rightarrow> length (split_pages (chunk_size cfg) pages)
      | _ \<Rightarrow> 1)"

subsection \<open>Cost Estimator, Batch Writer and Submitter\<close>

text \<open>
  Modelled from the spec: the data of the Cost Estimator, the Batch Writer and the
  Submitter (sections 4.2 to 4.4), whose source is missing. The logs directory holds batch
  artifacts, error logs and job-identifier markers, each with its timestamp. The world of a
  run is the logs directory, the calls made to the remote system and the lines printed.
\<close>

record estimate =
  input_tokens :: nat
  output_tokens :: nat

datatype log_entry =
    Batch_artifact string "batch_request list"
  | Error_log string "(source_item \<times> string) list"
  | Job_marker string string

datatype remote_call =
    Upload_file "batch_request list"
  | Create_job string string string

datatype terminal_line =
    Estimate_line estimate bool
  | Aborted_line
  | Written_line nat nat

record pipeline_world =
  logs :: "log_entry list"
  remote_calls :: "remote_call list"
  terminal :: "terminal_line list"

text \<open>
  Modelled from the spec: the Cost Estimator (section 4.2), whose source is missing. The
  input tokens are the characters of all requests divided by a fixed number of characters
  per token; the output tokens are the number of requests times the bound per request.
\<close>

definition request_chars :: "batch_request \<Rightarrow> nat" where
  "request_chars r =
     (case message r of Text_message s \<Rightarrow> length s | Vision_message p imgs \<Rightarrow> length p)"

definition estimate_cost :: "builder_config \<Rightarrow> batch_request list \<Rightarrow> estimate" where
  "estimate_cost cfg rs =
     \<lparr>input_tokens = sum_list (map request_chars rs) div chars_per_token cfg,
      output_tokens = length rs * max_output_tokens cfg\<rparr>"

definition exceeds :: "builder_config \<Rightarrow> estimate \<Rightarrow> bool" where
  "exceeds cfg est =
     (input_ceiling cfg < input_tokens est \<or> output_ceiling cfg < output_tokens est)"

text \<open>
  Modelled from the spec: the entry point that builds, estimates and writes a batch
  (sections 4.1 to 4.3 and 6), whose source is missing. The estimate is printed, with the
  verdict of the threshold check. A dry run ends there with exit status zero. A normal run
  aborts with a non-zero status when a ceiling is exceeded and \<open>force\<close> is not set;
  otherwise it writes the batch artifact and, when there are failures, the error log, both
  under the run's timestamp.
\<close>

definition create_batch ::
  "builder_config \<Rightarrow> collaborators \<Rightarrow> string \<Rightarrow> source_item list \<Rightarrow> pipeline_world
     \<Rightarrow> exit_status \<times> pipeline_world" where
  "create_batch cfg env stamp items w =
     (case build_requests cfg env items of (rs, fs) \<Rightarrow>
        (let est = estimate_cost cfg rs;
             over = exceeds cfg est;
             w1 = w\<lparr>terminal := terminal w @ [Estimate_line est over]\<rparr>
         in if dry_run cfg then (Exit_zero, w1)
            else if over \<and> \<not> force cfg
            then (Exit_nonzero, w1\<lparr>terminal := terminal w1 @ [Aborted_line]\<rparr>)
            else (Exit_zero,
                  w1\<lparr>logs := logs w1 @ [Batch_artifact stamp rs]
                               @ (if fs = [] then [] else [Error_log stamp fs]),
                     terminal := terminal w1 @ [Written_line (length rs) (length fs)]\<rparr>)))"

text \<open>
  Modelled from the spec: the Submitter (section 4.4), whose source is missing. It uploads
  the most recent batch artifact, creates a job for the uploaded file and writes the job
  identifier to a new marker; it fails when there is no artifact, when the upload fails or
  when the job is not created. The two answers of the remote system are parameters.
\<close>

fun latest_artifact :: "log_entry list \<Rightarrow> batch_request list option" where
  "latest_artifact [] = None"
| "latest_artifact (e # es) =
     (case latest_artifact es of
        Some rs \<Rightarrow> Some rs
      | None \<Rightarrow> (case e of Batch_artifact stamp rs \<Rightarrow> Some rs | _ \<Rightarrow> None))"

definition submit ::
  "builder_config \<Rightarrow> string \<Rightarrow> (batch_request list \<Rightarrow> string option) \<Rightarrow> (string \<Rightarrow> string option)
     \<Rightarrow> string \<Rightarrow> pipeline_world \<Rightarrow> exit_status \<times> pipeline_world" where
  "submit cfg window upload create stamp w =
     (case latest_artifact (logs w) of
        None \<Rightarrow> (Exit_nonzero, w)
      | Some rs \<Rightarrow>
          (let w1 = w\<lparr>remote_calls := remote_calls w @ [Upload_file rs]\<rparr>
           in case upload rs of
                None \<Rightarrow> (Exit_nonzero, w1)
              | Some file_id \<Rightarrow>
                  (let w2 = w1\<lparr>remote_calls := remote_calls w1
                                 @ [Create_job file_id (target_endpoint cfg) window]\<rparr>
                   in case create file_id of
                        None \<Rightarrow> (Exit_nonzero, w2)
                      | Some job \<Rightarrow> (Exit_zero, w2\<lparr>logs := logs w2 @ [Job_marker stamp job]\<rparr>))))"

text \<open>
  A run of the builder used to evaluate the definitions: five items, of which one gives a
  text request, one fails to extract, one is a scan of three pages cut into two chunks, one
  is passed over and one has too little text; and the specification's scenario of three
  texts of 1000 characters under a prompt of 200.
\<close>

definition example_config :: builder_config where
  "example_config =
     \<lparr>prompt = ''Summarise: '', id_prefix = ''summary-'',
      target_endpoint = ''/v1/chat/completions'', target_model = ''m'',
      max_output_tokens = 500, min_chars = 5, chunk_size = 2, skip_existing = True,
      dry_run = False, force = False, chars_per_token = 4,
      input_ceiling = 1000000, output_ceiling = 1000000\<rparr>"

definition example_collaborators :: collaborators where
  "example_collaborators =
     \<lparr>extractor = (\<lambda>item.
        if safe_id item = ''a'' then Inr (Text_content ''hello world'' 1)
        else if safe_id item = ''b'' then Inl (''IOError'', ''unreadable'')
        else if safe_id item = ''c'' then Inr (Scan_pages [''p1'', ''p2'', ''p3''])
        else Inr (Text_content ''hi'' 1)),
      prior_fingerprint = (\<lambda>i. if i = ''d'' then Some ''f1'' else None),
      fingerprint = (\<lambda>p. ''f1''),
      chunk_suffix = (\<lambda>i. replicate (Suc i) CHR ''#'')\<rparr>"

definition example_items :: "source_item list" where
  "example_items =
     [\<lparr>item_path = ''a.txt'', item_extension = ''txt'', safe_id = ''a''\<rparr>,
      \<lparr>item_path = ''b.pdf'', item_extension = ''pdf'', safe_id = ''b''\<rparr>,
      \<lparr>item_path = ''c.pdf'', item_extension = ''pdf'', safe_id = ''c''\<rparr>,
      \<lparr>item_path = ''d.txt'', item_extension = ''txt'', safe_id = ''d''\<rparr>,
      \<lparr>item_path = ''e.txt'', item_extension = ''txt'', safe_id = ''e''\<rparr>]"

definition scenario_config :: builder_config where
  "scenario_config =
     \<lparr>prompt = replicate 200 CHR ''p'', id_prefix = ''summary-'',
      target_endpoint = ''/v1/chat/completions'', target_model = ''m'',
      max_output_tokens = 500, min_chars = 5, chunk_size = 2, skip_existing = False,
      dry_run = True, force = False, chars_per_token = 4,
      input_ceiling = 1000000, output_ceiling = 1000000\<rparr>"

definition scenario_collaborators :: collaborators where
  "scenario_collaborators =
     \<lparr>extractor = (\<lambda>item. Inr (Text_content (replicate 1000 CHR ''x'') 1)),
      prior_fingerprint = (\<lambda>i. None),
      fingerprint = (\<lambda>p. ''f1''),
      chunk_suffix = (\<lambda>i. replicate (Suc i) CHR ''#'')\<rparr>"

section \<open>Properties of the upload script\<close>

lemma printed_print: "printed (print s w) = printed w @ [s]"
  by (simp add: print_def)

lemma printed_wandb: "printed (wandb c w) = printed w"
  by (simp add: wandb_def)



lemma positional_short: "length (positional argv) < 2 \<longleftrightarrow> length argv < 3"
  by (cases argv) (auto simp: positional_def)

text \<open>What the upload function prints and which library calls it makes, written out.\<close>

lemma printed_upload:
  "printed (upload_model_to_wandb fs d w) =
     printed w
     @ (if path_join d ''word2vec_text8_tiny_improved.txt'' \<in> fs
        then [''Uploaded Word2Vec model: '' @ path_join d ''word2vec_text8_tiny_improved.txt'']
        else [])
     @ (if path_join d ''best_hn_predictor.pth'' \<in> fs
        then [''Uploaded HN predictor model: '' @ path_join d ''best_hn_predictor.pth'']
        else [])
     @ [''Upload to W&B complete!'']"
  by (simp add: upload_model_to_wandb_def Let_def printed_print printed_wandb)


text \<open>
  Claim C6. When the script is started with fewer than two positional arguments it prints
  the usage line and nothing else, makes no call into the client library (no login, no run
  initialisation, no upload) and exits with code 1.
\<close>

theorem main_usage_exit:
  "length (positional argv) < 2 \<Longrightarrow>
     main fs argv w = (1, w\<lparr>printed := printed w @ [usage]\<rparr>)
     \<and> fst (main fs argv w) \<noteq> 0
     \<and> wandb_calls (snd (main fs argv w)) = wandb_calls w"
  by (simp add: positional_short main_def print_def)

theorem main_usage_exit_witness:
  "length (positional [''upload_to_wandb.py'', ''secret'']) < 2
   \<and> main {} [''upload_to_wandb.py'', ''secret''] \<lparr>printed = [], wandb_calls = []\<rparr>
       = (1, \<lparr>printed = [usage], wandb_calls = []\<rparr>)"
  using main_usage_exit [of "[''upload_to_wandb.py'', ''secret'']" "{}"
      "\<lparr>printed = [], wandb_calls = []\<rparr>"]
  by (simp add: positional_def)

text \<open>
  Claim C7. Two runs of the script on the same file system whose argument lists have the
  same length and agree everywhere but at position 1, the API key, print the same lines:
  what the script prints does not depend on the key.
\<close>

theorem printed_independent_of_key:
  "length a = length b \<Longrightarrow> (\<forall>i < length a. i \<noteq> 1 \<longrightarrow> a ! i = b ! i) \<Longrightarrow>
   printed (snd (main fs a w)) = printed (snd (main fs b w))"
  by (simp add: main_def Let_def printed_upload printed_wandb printed_print)

theorem printed_independent_of_key_witness:
  "printed (snd (main {''models/best_hn_predictor.pth''}
       [''upload_to_wandb.py'', ''key-one'', ''models''] \<lparr>printed = [], wandb_calls = []\<rparr>))
   = printed (snd (main {''models/best_hn_predictor.pth''}
       [''upload_to_wandb.py'', ''key-two'', ''models''] \<lparr>printed = [], wandb_calls = []\<rparr>))
   \<and> printed (snd (main {''models/best_hn_predictor.pth''}
       [''upload_to_wandb.py'', ''key-two'', ''models''] \<lparr>printed = [], wandb_calls = []\<rparr>))
   = [''Uploaded HN predictor model: models/best_hn_predictor.pth'',
      ''Upload to W&B complete!'']"
proof -
  have same: "\<forall>i < length [''upload_to_wandb.py'', ''key-one'', ''models''].
      i \<noteq> 1 \<longrightarrow> [''upload_to_wandb.py'', ''key-one'', ''models''] ! i
                = [''upload_to_wandb.py'', ''key-two'', ''models''] ! i"
    by (simp add: nth_Cons')
  have out: "printed (snd (main {''models/best_hn_predictor.pth''}
       [''upload_to_wandb.py'', ''key-two'', ''models''] \<lparr>printed = [], wandb_calls = []\<rparr>))
   = [''Uploaded HN predictor model: models/best_hn_predictor.pth'',
      ''Upload to W&B complete!'']"
    by (simp add: main_def Let_def printed_upload printed_wandb path_join_def
        startswith_sep_def endswith_sep_def)
  show ?thesis
    using printed_independent_of_key [OF _ same, of "{''models/best_hn_predictor.pth''}"
        "\<lparr>printed = [], wandb_calls = []\<rparr>"] out
    by simp
qed



section \<open>Properties of the sequence encoder\<close>

text \<open>A negative index \<open>- m\<close> into a dimension of size at least \<open>m\<close> selects entry \<open>size - m\<close>.\<close>

lemma select_dim1_neg:
  assumes "dims3 t = (d0, d1, d2)" and "0 < m" and "m \<le> d1"
  shows "select_dim1 (- int m) t
           = Inr \<lparr>dims2 = (d0, d2), at2 = (\<lambda>r k. at3 t r (d1 - m) k)\<rparr>"
proof -
  have "- int m + int d1 = int (d1 - m)"
    using assms(3) by simp
  moreover have "- int m < 0"
    using assms(2) by simp
  moreover have "int (d1 - m) < int d1"
    using assms(2,3) by simp
  ultimately show ?thesis
    using assms(1) by (simp add: select_dim1_def Let_def del: of_nat_diff)
qed

text \<open>
  Claim C9. When the two library calls return normally and the GRU's final hidden state has
  the documented shape \<open>[2 * num_layers, B, H]\<close> with at least one layer, \<^verbatim>\<open>forward\<close>
  returns a tensor of shape \<open>[B, 2 * H]\<close>: row \<open>b\<close> holds the last layer's final forward
  state for sequence \<open>b\<close> in columns \<open>0 .. H - 1\<close>, followed by the last layer's final
  backward state in columns \<open>H .. 2 * H - 1\<close>.
\<close>

theorem forward_shape:
  assumes "returns_h_n pack gru embeddings lengths h_n"
      and "dims3 h_n = (2 * num_layers, B, H)" and "0 < num_layers"
  shows "\<exists>enc. forward pack gru embeddings lengths = Inr enc
           \<and> dims2 enc = (B, 2 * H)
           \<and> (\<forall>b<B. \<forall>k<H.
                 at2 enc b k = layer_state h_n (num_layers - 1) Forward b k
               \<and> at2 enc b (H + k) = layer_state h_n (num_layers - 1) Backward b k)"
proof -
  from assms(1) obtain packed out where
    p: "pack embeddings lengths True False = Inr packed" and g: "gru packed = Inr (out, h_n)"
    unfolding returns_h_n_def by blast
  define hidden where "hidden = transpose01 h_n"
  have d: "dims3 hidden = (B, 2 * num_layers, H)"
    using assms(2) by (simp add: hidden_def transpose01_def)
  have a: "at3 hidden b i k = at3 h_n i b k" for b i k
    using assms(2) by (simp add: hidden_def transpose01_def)
  have f: "select_dim1 (- 2) hidden
             = Inr \<lparr>dims2 = (B, H), at2 = (\<lambda>r k. at3 hidden r (2 * num_layers - 2) k)\<rparr>"
    using select_dim1_neg [OF d, of 2] assms(3) by simp
  have b: "select_dim1 (- 1) hidden
             = Inr \<lparr>dims2 = (B, H), at2 = (\<lambda>r k. at3 hidden r (2 * num_layers - 1) k)\<rparr>"
    using select_dim1_neg [OF d, of 1] assms(3) by simp
  have ix: "2 * num_layers - 2 = 2 * (num_layers - Suc 0)"
    "2 * num_layers - Suc 0 = Suc (2 * (num_layers - Suc 0))"
    using assms(3) by auto
  have "forward pack gru embeddings lengths
          = Inr \<lparr>dims2 = (B, H + H),
                 at2 = (\<lambda>r k. if k < H then at3 hidden r (2 * num_layers - 2) k
                                else at3 hidden r (2 * num_layers - 1) (k - H))\<rparr>"
    by (simp add: forward_def p g Let_def hidden_def [symmetric] f b cat_dim1_def cong: if_cong)
  then show ?thesis
    by (simp add: a ix layer_state_def)
qed

theorem forward_shape_witness:
  "\<exists>enc. forward (\<lambda>e l bf es. Inr (e, l))
            (\<lambda>p. Inr ((), \<lparr>dims3 = (4, 2, 3), at3 = (\<lambda>i b k. 100 * i + 10 * b + k)\<rparr>))
            \<lparr>dims3 = (2, 5, 7), at3 = (\<lambda>i j k. 0 :: nat)\<rparr> [5, 3] = Inr enc
         \<and> dims2 enc = (2, 6) \<and> at2 enc 1 0 = (210 :: nat) \<and> at2 enc 1 3 = 310"
proof -
  have r: "returns_h_n (\<lambda>e l bf es. Inr (e, l))
            (\<lambda>p :: nat tensor3 \<times> int list.
               Inr ((), \<lparr>dims3 = (4, 2, 3), at3 = (\<lambda>i b k. 100 * i + 10 * b + k)\<rparr>))
            \<lparr>dims3 = (2, 5, 7), at3 = (\<lambda>i j k. 0 :: nat)\<rparr> [5, 3]
            \<lparr>dims3 = (4, 2, 3), at3 = (\<lambda>i b k. 100 * i + 10 * b + k :: nat)\<rparr>"
    by (simp add: returns_h_n_def)
  from forward_shape [OF r, of 2 2 3] obtain enc where
    e: "forward (\<lambda>e l bf es. Inr (e, l))
            (\<lambda>p :: nat tensor3 \<times> int list.
               Inr ((), \<lparr>dims3 = (4, 2, 3), at3 = (\<lambda>i b k. 100 * i + 10 * b + k)\<rparr>))
            \<lparr>dims3 = (2, 5, 7), at3 = (\<lambda>i j k. 0 :: nat)\<rparr> [5, 3] = Inr enc"
    and d: "dims2 enc = (2, 6)"
    and a: "\<forall>b<2. \<forall>k<3. at2 enc b k = 200 + 10 * b + k \<and> at2 enc b (3 + k) = 300 + 10 * b + k"
    by (auto simp: layer_state_def)
  have "(1 :: nat) < 2" and "(0 :: nat) < 3"
    by simp_all
  with a have "at2 enc 1 0 = 200 + 10 * 1 + 0 \<and> at2 enc 1 (3 + 0) = 300 + 10 * 1 + 0"
    by blast
  then have "at2 enc 1 0 = 210 \<and> at2 enc 1 3 = 310"
    by simp
  with e d show ?thesis
    by blast
qed

text \<open>
  Claim C10. With \<^verbatim>\<open>num_layers\<close> equal to 1, given or by default, the dropout rate passed
  to the GRU is 0 whatever dropout was supplied; with more than one layer it is the supplied
  rate; and with at most one layer it is 0.
\<close>

theorem init_dropout:
  "gru_dropout (BidirectionalGRU_init e h (Some 1) d) = 0
   \<and> gru_dropout (BidirectionalGRU_init e h None d) = 0
   \<and> (1 < n \<longrightarrow> gru_dropout (BidirectionalGRU_init e h (Some n) (Some p)) = p)
   \<and> (n \<le> 1 \<longrightarrow> gru_dropout (BidirectionalGRU_init e h (Some n) d) = 0)"
  by (simp add: BidirectionalGRU_init_def)


theorem init_dropout_witness:
  "gru_dropout (BidirectionalGRU_init 50 64 (Some 2) (Some (1 / 2))) = 1 / 2
   \<and> gru_dropout (BidirectionalGRU_init 50 64 (Some 1) (Some (1 / 2))) = 0"
  using init_dropout [of 50 64 "Some (1 / 2)" 2 "1 / 2"]
  by simp

section \<open>Properties of the batch pipeline\<close>

text \<open>
  A run whose answers are pending up to a first terminal failure state ends there, stopped,
  and has not invoked the Result Processor.
\<close>

lemma poller_stops:
  "list_all (\<lambda>u. pending (view_status u)) pre \<Longrightarrow> terminal_failure (view_status v) \<Longrightarrow>
   \<exists>evs. poller p (pre @ v # rest) = Some (evs, Stopped (view_status v))
        \<and> Invoke_processor \<notin> set evs"
proof (induction pre)
  case Nil
  then show ?case by (auto simp: terminal_failure_def)
next
  case (Cons u pre)
  then obtain evs where "poller p (pre @ v # rest) = Some (evs, Stopped (view_status v))"
    "Invoke_processor \<notin> set evs" by auto
  moreover have "pending (view_status u)" using Cons.prems by simp
  ultimately show ?case by (auto simp: pending_def)
qed

text \<open>One item gives as many requests and failures together as it counts for.\<close>

lemma build_item_count:
  "length (fst (build_item cfg env item)) + length (snd (build_item cfg env item))
     = (if skipped cfg env item then 0 else units cfg env item)"
  by (simp add: build_item_def units_def split: sum.splits extracted.splits prod.splits)

text \<open>
  Claim C2. For every list of source items, the number of requests built plus the number
  of recorded failures is the number of items considered, a scan counting once per chunk
  it is cut into.
\<close>

theorem build_requests_count:
  "length (fst (build_requests cfg env items)) + length (snd (build_requests cfg env items))
     = sum_list (map (units cfg env) (considered cfg env items))"
proof (induction items)
  case Nil
  then show ?case by (simp add: considered_def)
next
  case (Cons item items)
  have "length (fst (build_requests cfg env (item # items)))
          + length (snd (build_requests cfg env (item # items)))
        = (length (fst (build_item cfg env item)) + length (snd (build_item cfg env item)))
          + (length (fst (build_requests cfg env items))
             + length (snd (build_requests cfg env items)))"
    by (simp split: prod.splits)
  also have "\<dots> = (if skipped cfg env item then 0 else units cfg env item)
          + sum_list (map (units cfg env) (considered cfg env items))"
    by (simp only: build_item_count Cons.IH)
  also have "\<dots> = sum_list (map (units cfg env) (considered cfg env (item # items)))"
    by (simp add: considered_def)
  finally show ?case .
qed

theorem build_requests_count_witness:
  "map custom_id (fst (build_requests example_config example_collaborators example_items))
     = [''summary-a'', ''summary-c#'', ''summary-c##'']
   \<and> map snd (snd (build_requests example_config example_collaborators example_items))
     = [''IOError: unreadable'', ''insufficient text'']
   \<and> sum_list (map (units example_config example_collaborators)
        (considered example_config example_collaborators example_items)) = 5"
  using build_requests_count [of example_config example_collaborators example_items]
  by (simp add: example_config_def example_collaborators_def example_items_def build_item_def
      skipped_def request_def units_def considered_def enumerate_eq_zip)

text \<open>
  Claim C3. Invoked on a job whose status is not \<open>completed\<close>, the Result Processor ends
  with a non-zero exit status and the output files are what they were before: it has
  written none.
\<close>

theorem processor_fails_fast:
  "job_status_of job \<noteq> Completed \<Longrightarrow>
     fst (result_processor cfg parses_as_json stamp job w) = Exit_nonzero
     \<and> output_files (snd (result_processor cfg parses_as_json stamp job w)) = output_files w"
  by (simp add: result_processor_def)

theorem processor_fails_fast_witness:
  "job_status_of \<lparr>job_status_of = Failed, job_output = []\<rparr> \<noteq> Completed
   \<and> result_processor
        \<lparr>request_prefix = ''summary-'', min_length = 1, short_length = 20,
          expects_structured = False\<rparr>
        (\<lambda>c. True) ''_20240101'' \<lparr>job_status_of = Failed, job_output = []\<rparr>
        \<lparr>output_files = [(''old_20231231'', ''text'')], processor_lines = []\<rparr>
      = (Exit_nonzero,
         \<lparr>output_files = [(''old_20231231'', ''text'')],
           processor_lines = [Job_not_completed Failed]\<rparr>)"
  using processor_fails_fast
    [of "\<lparr>job_status_of = Failed, job_output = []\<rparr>"
        "\<lparr>request_prefix = ''summary-'', min_length = 1, short_length = 20,
          expects_structured = False\<rparr>"
        "\<lambda>c. True" "''_20240101''"
        "\<lparr>output_files = [(''old_20231231'', ''text'')], processor_lines = []\<rparr>"]
  by (simp add: result_processor_def)

text \<open>
  Claim C4. A run of the poller that is answered \<open>in_progress\<close>, \<open>in_progress\<close>,
  \<open>completed\<close> ends, whatever the remote system would have answered afterwards, having
  invoked the Result Processor once, as its last step, and slept twice, and it passes on
  the processor's exit status. A run whose first terminal answer is \<open>failed\<close>, \<open>expired\<close> or
  \<open>cancelled\<close> ends there and has not invoked the Result Processor.
\<close>

theorem poller_completed_or_stopped:
  "(view_status v1 = In_progress \<and> view_status v2 = In_progress \<and> view_status v3 = Completed
      \<longrightarrow> (\<exists>evs. poller p (v1 # v2 # v3 # rest) = Some (evs, Processed p)
             \<and> count_list evs Invoke_processor = 1
             \<and> count_list evs Sleep_interval = 2
             \<and> last evs = Invoke_processor))
   \<and> (list_all (\<lambda>u. pending (view_status u)) pre \<and> terminal_failure (view_status v)
      \<longrightarrow> (\<exists>evs. poller p (pre @ v # rest) = Some (evs, Stopped (view_status v))
             \<and> Invoke_processor \<notin> set evs))"
  using poller_stops [of pre v p rest] by simp

theorem poller_completed_or_stopped_witness:
  "poller Exit_zero
     [\<lparr>view_status = In_progress, completed_count = 0, total_count = 3\<rparr>,
      \<lparr>view_status = In_progress, completed_count = 2, total_count = 3\<rparr>,
      \<lparr>view_status = Completed, completed_count = 3, total_count = 3\<rparr>]
   = Some ([Query_status, Progress_line 0 3, Sleep_interval,
            Query_status, Progress_line 2 3, Sleep_interval,
            Query_status, Progress_line 3 3, Invoke_processor], Processed Exit_zero)
   \<and> poller Exit_zero
     [\<lparr>view_status = Queued, completed_count = 0, total_count = 3\<rparr>,
      \<lparr>view_status = Failed, completed_count = 1, total_count = 3\<rparr>]
   = Some ([Query_status, Progress_line 0 3, Sleep_interval,
            Query_status, Progress_line 1 3, Report_terminal Failed], Stopped Failed)"
  using poller_completed_or_stopped
    [of "\<lparr>view_status = In_progress, completed_count = 0, total_count = 3\<rparr>"
        "\<lparr>view_status = In_progress, completed_count = 2, total_count = 3\<rparr>"
        "\<lparr>view_status = Completed, completed_count = 3, total_count = 3\<rparr>"
        Exit_zero "[]"
        "[\<lparr>view_status = Queued, completed_count = 0, total_count = 3\<rparr>]"
        "\<lparr>view_status = Failed, completed_count = 1, total_count = 3\<rparr>"]
  by simp

text \<open>
  Claim C5. A dry run ends with exit status zero; it adds nothing to the logs directory, so
  it writes no batch artifact and no error log, and it makes no call to the remote system;
  all it prints is the cost estimate.
\<close>

theorem dry_run_writes_nothing:
  "dry_run cfg \<Longrightarrow>
     create_batch cfg env stamp items w
       = (Exit_zero,
          w\<lparr>terminal := terminal w
               @ [Estimate_line (estimate_cost cfg (fst (build_requests cfg env items)))
                    (exceeds cfg (estimate_cost cfg (fst (build_requests cfg env items))))]\<rparr>)
     \<and> logs (snd (create_batch cfg env stamp items w)) = logs w
     \<and> remote_calls (snd (create_batch cfg env stamp items w)) = remote_calls w"
  by (simp add: create_batch_def Let_def split: prod.splits)

theorem dry_run_writes_nothing_witness:
  "dry_run scenario_config
   \<and> create_batch scenario_config scenario_collaborators ''20240101'' (take 3 example_items)
        \<lparr>logs = [], remote_calls = [], terminal = []\<rparr>
      = (Exit_zero,
         \<lparr>logs = [], remote_calls = [],
           terminal = [Estimate_line \<lparr>input_tokens = 900, output_tokens = 1500\<rparr> False]\<rparr>)"
  using dry_run_writes_nothing [of scenario_config scenario_collaborators "''20240101''"
      "take 3 example_items" "\<lparr>logs = [], remote_calls = [], terminal = []\<rparr>"]
  by (simp add: scenario_config_def scenario_collaborators_def example_items_def
      build_item_def skipped_def request_def estimate_cost_def exceeds_def request_chars_def)

end
